theory Spec2Isabelle
  imports Main "HOL-Library.Signed_Division"
begin

section \<open>Operator-generating units of elemental.h\<close>

text \<open>
  The header synthesizes derived operators from primitive operators that the composing type
  \<open>T\<close> supplies. A derived operator is modelled as a function that takes the primitives
  occurring in its body as arguments: a comparison primitive \<open>x < y\<close> of \<open>T\<close> against
  \<open>U\<close> is a function \<open>lt :: 't \<Rightarrow> 'u \<Rightarrow> bool\<close>, a compound assignment
  \<open>x op= y\<close> is a function \<open>'t \<Rightarrow> 'u \<Rightarrow> 't\<close> returning the new value of its receiver,
  a prefix step \<open>++x\<close> is a function \<open>'t \<Rightarrow> 't\<close>. The copy \<open>T copy(x)\<close> has value
  semantics: the copy is the value of \<open>x\<close>. Suffix \<open>_TU\<close> marks a friend taking
  \<open>(const T&, const U&)\<close>, suffix \<open>_UT\<close> one taking \<open>(const U&, const T&)\<close>; the
  names without suffix belong to the specialization for \<open>U = T\<close>.
\<close>

subsection \<open>less_than_comparable\<close>

text \<open>
  Primary template \<open>less_than_comparable<T, U>\<close>: \<open>lt\<close> is the primitive
  \<open>T < U\<close> and \<open>gt\<close> the primitive \<open>T > U\<close>.
\<close>

definition less_than_comparable_le_TU ::
  "('t \<Rightarrow> 'u \<Rightarrow> bool) \<Rightarrow> ('t \<Rightarrow> 'u \<Rightarrow> bool) \<Rightarrow> 't \<Rightarrow> 'u \<Rightarrow> bool" where
  "less_than_comparable_le_TU lt gt x y = (\<not> gt x y)"

definition less_than_comparable_ge_TU ::
  "('t \<Rightarrow> 'u \<Rightarrow> bool) \<Rightarrow> ('t \<Rightarrow> 'u \<Rightarrow> bool) \<Rightarrow> 't \<Rightarrow> 'u \<Rightarrow> bool" where
  "less_than_comparable_ge_TU lt gt x y = (\<not> lt x y)"

definition less_than_comparable_gt_UT ::
  "('t \<Rightarrow> 'u \<Rightarrow> bool) \<Rightarrow> ('t \<Rightarrow> 'u \<Rightarrow> bool) \<Rightarrow> 'u \<Rightarrow> 't \<Rightarrow> bool" where
  "less_than_comparable_gt_UT lt gt x y = lt y x"

definition less_than_comparable_lt_UT ::
  "('t \<Rightarrow> 'u \<Rightarrow> bool) \<Rightarrow> ('t \<Rightarrow> 'u \<Rightarrow> bool) \<Rightarrow> 'u \<Rightarrow> 't \<Rightarrow> bool" where
  "less_than_comparable_lt_UT lt gt x y = gt y x"

definition less_than_comparable_le_UT ::
  "('t \<Rightarrow> 'u \<Rightarrow> bool) \<Rightarrow> ('t \<Rightarrow> 'u \<Rightarrow> bool) \<Rightarrow> 'u \<Rightarrow> 't \<Rightarrow> bool" where
  "less_than_comparable_le_UT lt gt x y = (\<not> lt y x)"

definition less_than_comparable_ge_UT ::
  "('t \<Rightarrow> 'u \<Rightarrow> bool) \<Rightarrow> ('t \<Rightarrow> 'u \<Rightarrow> bool) \<Rightarrow> 'u \<Rightarrow> 't \<Rightarrow> bool" where
  "less_than_comparable_ge_UT lt gt x y = (\<not> gt y x)"

text \<open>Specialization \<open>less_than_comparable<T, T>\<close>: only \<open>T < T\<close> occurs.\<close>

definition less_than_comparable_gt :: "('t \<Rightarrow> 't \<Rightarrow> bool) \<Rightarrow> 't \<Rightarrow> 't \<Rightarrow> bool" where
  "less_than_comparable_gt lt x y = lt y x"

definition less_than_comparable_le :: "('t \<Rightarrow> 't \<Rightarrow> bool) \<Rightarrow> 't \<Rightarrow> 't \<Rightarrow> bool" where
  "less_than_comparable_le lt x y = (\<not> lt y x)"

definition less_than_comparable_ge :: "('t \<Rightarrow> 't \<Rightarrow> bool) \<Rightarrow> 't \<Rightarrow> 't \<Rightarrow> bool" where
  "less_than_comparable_ge lt x y = (\<not> lt x y)"

subsection \<open>equality_comparable\<close>

text \<open>
  Primary template \<open>equality_comparable<T, U>\<close>: \<open>eq\<close> is the primitive \<open>T == U\<close>.
  The friends taking \<open>(const U& y, const T& x)\<close> name their parameters in that order.
\<close>

definition equality_comparable_eq_UT :: "('t \<Rightarrow> 'u \<Rightarrow> bool) \<Rightarrow> 'u \<Rightarrow> 't \<Rightarrow> bool" where
  "equality_comparable_eq_UT eq y x = eq x y"

definition equality_comparable_ne_UT :: "('t \<Rightarrow> 'u \<Rightarrow> bool) \<Rightarrow> 'u \<Rightarrow> 't \<Rightarrow> bool" where
  "equality_comparable_ne_UT eq y x = (\<not> eq x y)"

definition equality_comparable_ne_TU :: "('t \<Rightarrow> 'u \<Rightarrow> bool) \<Rightarrow> 't \<Rightarrow> 'u \<Rightarrow> bool" where
  "equality_comparable_ne_TU eq y x = (\<not> eq y x)"

text \<open>Specialization \<open>equality_comparable<T, T>\<close>.\<close>

definition equality_comparable_ne :: "('t \<Rightarrow> 't \<Rightarrow> bool) \<Rightarrow> 't \<Rightarrow> 't \<Rightarrow> bool" where
  "equality_comparable_ne eq x y = (\<not> eq x y)"

subsection \<open>equivalent\<close>

text \<open>
  Primary template \<open>equivalent<T, U>\<close> reads the primitives \<open>T < U\<close> and \<open>T > U\<close>;
  the specialization \<open>equivalent<T, T>\<close> reads \<open>T < T\<close> in both directions.
\<close>

definition equivalent_eq_TU ::
  "('t \<Rightarrow> 'u \<Rightarrow> bool) \<Rightarrow> ('t \<Rightarrow> 'u \<Rightarrow> bool) \<Rightarrow> 't \<Rightarrow> 'u \<Rightarrow> bool" where
  "equivalent_eq_TU lt gt x y = (\<not> lt x y \<and> \<not> gt x y)"

definition equivalent_eq :: "('t \<Rightarrow> 't \<Rightarrow> bool) \<Rightarrow> 't \<Rightarrow> 't \<Rightarrow> bool" where
  "equivalent_eq lt x y = (\<not> lt x y \<and> \<not> lt y x)"

text \<open>
  The precondition the equivalence generator is documented with: \<open>lt\<close> is a strict weak
  order, that is irreflexive, transitive, and whenever \<open>x\<close> is below \<open>y\<close> every \<open>z\<close>
  is above \<open>x\<close> or below \<open>y\<close>.
\<close>

definition strict_weak_order :: "('t \<Rightarrow> 't \<Rightarrow> bool) \<Rightarrow> bool" where
  "strict_weak_order lt \<longleftrightarrow>
     (\<forall>x. \<not> lt x x) \<and>
     (\<forall>x y z. lt x y \<longrightarrow> lt y z \<longrightarrow> lt x z) \<and>
     (\<forall>x y z. lt x y \<longrightarrow> lt x z \<or> lt z y)"

subsection \<open>Binary operators from compound assignments\<close>

text \<open>
  \<open>PYCPP_BINARY_OPERATOR_COMMUTATIVE(name, op)\<close>: \<open>op_assign\<close> is the compound
  assignment \<open>op=\<close> of \<open>T\<close>; the result is the value of the local \<open>copy\<close>, of type
  \<open>T\<close> in all three friends.
\<close>

definition PYCPP_BINARY_OPERATOR_COMMUTATIVE_TU :: "('t \<Rightarrow> 'u \<Rightarrow> 't) \<Rightarrow> 't \<Rightarrow> 'u \<Rightarrow> 't" where
  "PYCPP_BINARY_OPERATOR_COMMUTATIVE_TU op_assign x y =
     (let copy = x; copy = op_assign copy y in copy)"

definition PYCPP_BINARY_OPERATOR_COMMUTATIVE_UT :: "('t \<Rightarrow> 'u \<Rightarrow> 't) \<Rightarrow> 'u \<Rightarrow> 't \<Rightarrow> 't" where
  "PYCPP_BINARY_OPERATOR_COMMUTATIVE_UT op_assign x y =
     (let copy = y; copy = op_assign copy x in copy)"

definition PYCPP_BINARY_OPERATOR_COMMUTATIVE_TT :: "('t \<Rightarrow> 't \<Rightarrow> 't) \<Rightarrow> 't \<Rightarrow> 't \<Rightarrow> 't" where
  "PYCPP_BINARY_OPERATOR_COMMUTATIVE_TT op_assign x y =
     (let copy = x; copy = op_assign copy y in copy)"

text \<open>
  \<open>PYCPP_BINARY_OPERATOR_NON_COMMUTATIVE(name, op)\<close>. The reversed unit \<open>r##name\<close>
  builds its copy from the \<open>U\<close> operand, through the conversion \<open>convert\<close> of \<open>U\<close> to
  \<open>T\<close>, and applies the compound assignment of \<open>T\<close> with \<open>T\<close>.
\<close>

definition PYCPP_BINARY_OPERATOR_NON_COMMUTATIVE_TU ::
  "('t \<Rightarrow> 'u \<Rightarrow> 't) \<Rightarrow> 't \<Rightarrow> 'u \<Rightarrow> 't" where
  "PYCPP_BINARY_OPERATOR_NON_COMMUTATIVE_TU op_assign x y =
     (let copy = x; copy = op_assign copy y in copy)"

definition PYCPP_BINARY_OPERATOR_NON_COMMUTATIVE_TT ::
  "('t \<Rightarrow> 't \<Rightarrow> 't) \<Rightarrow> 't \<Rightarrow> 't \<Rightarrow> 't" where
  "PYCPP_BINARY_OPERATOR_NON_COMMUTATIVE_TT op_assign x y =
     (let copy = x; copy = op_assign copy y in copy)"

definition PYCPP_BINARY_OPERATOR_NON_COMMUTATIVE_r_UT ::
  "('u \<Rightarrow> 't) \<Rightarrow> ('t \<Rightarrow> 't \<Rightarrow> 't) \<Rightarrow> 'u \<Rightarrow> 't \<Rightarrow> 't" where
  "PYCPP_BINARY_OPERATOR_NON_COMMUTATIVE_r_UT convert op_assign x y =
     (let copy = convert x; copy = op_assign copy y in copy)"

text \<open>The units the two macros are expanded to; the argument is the unit's own \<open>op=\<close>.\<close>

definition multipliable_TU :: "('t \<Rightarrow> 'u \<Rightarrow> 't) \<Rightarrow> 't \<Rightarrow> 'u \<Rightarrow> 't" where
  "multipliable_TU mul_assign = PYCPP_BINARY_OPERATOR_COMMUTATIVE_TU mul_assign"

definition multipliable_UT :: "('t \<Rightarrow> 'u \<Rightarrow> 't) \<Rightarrow> 'u \<Rightarrow> 't \<Rightarrow> 't" where
  "multipliable_UT mul_assign = PYCPP_BINARY_OPERATOR_COMMUTATIVE_UT mul_assign"

definition multipliable :: "('t \<Rightarrow> 't \<Rightarrow> 't) \<Rightarrow> 't \<Rightarrow> 't \<Rightarrow> 't" where
  "multipliable mul_assign = PYCPP_BINARY_OPERATOR_COMMUTATIVE_TT mul_assign"

definition addable_TU :: "('t \<Rightarrow> 'u \<Rightarrow> 't) \<Rightarrow> 't \<Rightarrow> 'u \<Rightarrow> 't" where
  "addable_TU add_assign = PYCPP_BINARY_OPERATOR_COMMUTATIVE_TU add_assign"

definition addable_UT :: "('t \<Rightarrow> 'u \<Rightarrow> 't) \<Rightarrow> 'u \<Rightarrow> 't \<Rightarrow> 't" where
  "addable_UT add_assign = PYCPP_BINARY_OPERATOR_COMMUTATIVE_UT add_assign"

definition addable :: "('t \<Rightarrow> 't \<Rightarrow> 't) \<Rightarrow> 't \<Rightarrow> 't \<Rightarrow> 't" where
  "addable add_assign = PYCPP_BINARY_OPERATOR_COMMUTATIVE_TT add_assign"

definition subtractable_TU :: "('t \<Rightarrow> 'u \<Rightarrow> 't) \<Rightarrow> 't \<Rightarrow> 'u \<Rightarrow> 't" where
  "subtractable_TU sub_assign = PYCPP_BINARY_OPERATOR_NON_COMMUTATIVE_TU sub_assign"

definition subtractable :: "('t \<Rightarrow> 't \<Rightarrow> 't) \<Rightarrow> 't \<Rightarrow> 't \<Rightarrow> 't" where
  "subtractable sub_assign = PYCPP_BINARY_OPERATOR_NON_COMMUTATIVE_TT sub_assign"

definition rsubtractable :: "('u \<Rightarrow> 't) \<Rightarrow> ('t \<Rightarrow> 't \<Rightarrow> 't) \<Rightarrow> 'u \<Rightarrow> 't \<Rightarrow> 't" where
  "rsubtractable convert sub_assign =
     PYCPP_BINARY_OPERATOR_NON_COMMUTATIVE_r_UT convert sub_assign"

definition dividable_TU :: "('t \<Rightarrow> 'u \<Rightarrow> 't) \<Rightarrow> 't \<Rightarrow> 'u \<Rightarrow> 't" where
  "dividable_TU div_assign = PYCPP_BINARY_OPERATOR_NON_COMMUTATIVE_TU div_assign"

definition dividable :: "('t \<Rightarrow> 't \<Rightarrow> 't) \<Rightarrow> 't \<Rightarrow> 't \<Rightarrow> 't" where
  "dividable div_assign = PYCPP_BINARY_OPERATOR_NON_COMMUTATIVE_TT div_assign"

definition rdividable :: "('u \<Rightarrow> 't) \<Rightarrow> ('t \<Rightarrow> 't \<Rightarrow> 't) \<Rightarrow> 'u \<Rightarrow> 't \<Rightarrow> 't" where
  "rdividable convert div_assign =
     PYCPP_BINARY_OPERATOR_NON_COMMUTATIVE_r_UT convert div_assign"

definition xorable_TU :: "('t \<Rightarrow> 'u \<Rightarrow> 't) \<Rightarrow> 't \<Rightarrow> 'u \<Rightarrow> 't" where
  "xorable_TU xor_assign = PYCPP_BINARY_OPERATOR_COMMUTATIVE_TU xor_assign"

definition xorable_UT :: "('t \<Rightarrow> 'u \<Rightarrow> 't) \<Rightarrow> 'u \<Rightarrow> 't \<Rightarrow> 't" where
  "xorable_UT xor_assign = PYCPP_BINARY_OPERATOR_COMMUTATIVE_UT xor_assign"

definition xorable :: "('t \<Rightarrow> 't \<Rightarrow> 't) \<Rightarrow> 't \<Rightarrow> 't \<Rightarrow> 't" where
  "xorable xor_assign = PYCPP_BINARY_OPERATOR_COMMUTATIVE_TT xor_assign"

definition andable_TU :: "('t \<Rightarrow> 'u \<Rightarrow> 't) \<Rightarrow> 't \<Rightarrow> 'u \<Rightarrow> 't" where
  "andable_TU and_assign = PYCPP_BINARY_OPERATOR_COMMUTATIVE_TU and_assign"

definition andable_UT :: "('t \<Rightarrow> 'u \<Rightarrow> 't) \<Rightarrow> 'u \<Rightarrow> 't \<Rightarrow> 't" where
  "andable_UT and_assign = PYCPP_BINARY_OPERATOR_COMMUTATIVE_UT and_assign"

definition andable :: "('t \<Rightarrow> 't \<Rightarrow> 't) \<Rightarrow> 't \<Rightarrow> 't \<Rightarrow> 't" where
  "andable and_assign = PYCPP_BINARY_OPERATOR_COMMUTATIVE_TT and_assign"

definition orable_TU :: "('t \<Rightarrow> 'u \<Rightarrow> 't) \<Rightarrow> 't \<Rightarrow> 'u \<Rightarrow> 't" where
  "orable_TU or_assign = PYCPP_BINARY_OPERATOR_COMMUTATIVE_TU or_assign"

definition orable_UT :: "('t \<Rightarrow> 'u \<Rightarrow> 't) \<Rightarrow> 'u \<Rightarrow> 't \<Rightarrow> 't" where
  "orable_UT or_assign = PYCPP_BINARY_OPERATOR_COMMUTATIVE_UT or_assign"

definition orable :: "('t \<Rightarrow> 't \<Rightarrow> 't) \<Rightarrow> 't \<Rightarrow> 't \<Rightarrow> 't" where
  "orable or_assign = PYCPP_BINARY_OPERATOR_COMMUTATIVE_TT or_assign"

subsection \<open>Postfix steps, member access and indexing\<close>

text \<open>
  \<open>operator++(T& x, int)\<close> mutates its argument: the model returns the pair of the value
  returned (the local \<open>copy\<close>) and the value of \<open>x\<close> after the call. \<open>pre_inc\<close> is the
  prefix \<open>++\<close> of \<open>T\<close>, \<open>pre_dec\<close> its prefix \<open>--\<close>.
\<close>

definition incrementable_post_inc :: "('t \<Rightarrow> 't) \<Rightarrow> 't \<Rightarrow> 't \<times> 't" where
  "incrementable_post_inc pre_inc x = (let copy = x; x = pre_inc x in (copy, x))"

definition decrementable_post_dec :: "('t \<Rightarrow> 't) \<Rightarrow> 't \<Rightarrow> 't \<times> 't" where
  "decrementable_post_dec pre_dec x = (let copy = x; x = pre_dec x in (copy, x))"

text \<open>
  \<open>dereferenceable<T, P>::operator->\<close> and \<open>subscriptable<T, I, R>::operator[]\<close>:
  \<open>deref\<close> is the unary \<open>*\<close>, \<open>add\<close> the binary \<open>+\<close> of \<open>T\<close> with the index type.
\<close>

definition dereferenceable_arrow :: "('r \<Rightarrow> 'p) \<Rightarrow> ('t \<Rightarrow> 'r) \<Rightarrow> 't \<Rightarrow> 'p" where
  "dereferenceable_arrow addressof deref self = addressof (deref self)"

definition subscriptable_index :: "('t \<Rightarrow> 'i \<Rightarrow> 's) \<Rightarrow> ('s \<Rightarrow> 'r) \<Rightarrow> 't \<Rightarrow> 'i \<Rightarrow> 'r" where
  "subscriptable_index add deref self n = deref (add self n)"

subsection \<open>The units as class templates\<close>

text \<open>
  Which operators a unit declares, and which units a composite bundle derives from, is data
  of the header: a template specialization is a value of \<open>'ty specialization\<close>, over any type
  \<open>'ty\<close> of names for the C++ types the templates are applied to. The partial
  specialization for \<open>U = T\<close> is selected where the two arguments are equal, and a
  defaulted second argument is written out (\<open>addable<T>\<close> is \<open>Addable t t\<close>).
\<close>

datatype 'ty specialization =
    Less_than_comparable 'ty 'ty
  | Equality_comparable 'ty 'ty
  | Multipliable 'ty 'ty
  | Addable 'ty 'ty
  | Subtractable 'ty 'ty
  | Rsubtractable 'ty 'ty
  | Dividable 'ty 'ty
  | Rdividable 'ty 'ty
  | Modable 'ty 'ty
  | Rmodable 'ty 'ty
  | Xorable 'ty 'ty
  | Andable 'ty 'ty
  | Orable 'ty 'ty
  | Left_shiftable 'ty 'ty
  | Right_shiftable 'ty 'ty
  | Incrementable 'ty
  | Decrementable 'ty
  | Dereferenceable 'ty 'ty
  | Subscriptable 'ty 'ty 'ty
  | Equivalent 'ty 'ty
  | Partially_ordered 'ty 'ty
  | Totally_ordered 'ty 'ty
  | Additive 'ty 'ty
  | Multiplicative 'ty 'ty
  | Integer_multiplicative 'ty 'ty
  | Arithmetic 'ty 'ty
  | Integer_arithmetic 'ty 'ty
  | Bitwise 'ty 'ty
  | Unit_steppable 'ty
  | Shiftable 'ty 'ty
  | Ring_operators 'ty 'ty
  | Ordered_ring_operators 'ty 'ty
  | Field_operators 'ty 'ty
  | Ordered_field_operators 'ty 'ty
  | Euclidian_ring_operators 'ty 'ty
  | Ordered_euclidian_ring_operators 'ty 'ty
  | Euclidean_ring_operators 'ty 'ty
  | Ordered_euclidean_ring_operators 'ty 'ty
  | Input_iteratable 'ty 'ty
  | Output_iteratable 'ty
  | Forward_iteratable 'ty 'ty
  | Bidirectional_iteratable 'ty 'ty
  | Random_access_iteratable 'ty 'ty 'ty 'ty
  | Operators 'ty 'ty

text \<open>
  An operator signature: its symbol, the types of its operands and its result type. For the
  member operators \<open>->\<close> and \<open>[]\<close> the first operand is the composing type \<open>T\<close>
  the member is called on; the dummy \<open>int\<close> of a postfix step is left out.
\<close>

datatype operator_symbol =
    Op_lt | Op_le | Op_gt | Op_ge | Op_eq | Op_ne
  | Op_mul | Op_add | Op_sub | Op_div | Op_mod | Op_xor | Op_and | Op_or
  | Op_shl | Op_shr | Op_post_inc | Op_post_dec | Op_arrow | Op_subscript

datatype 'ty result = Bool | Ty 'ty

type_synonym 'ty signature = "operator_symbol \<times> 'ty list \<times> 'ty result"

text \<open>The three shapes of the binary-operator macros.\<close>

definition commutative_signatures :: "operator_symbol \<Rightarrow> 'ty \<Rightarrow> 'ty \<Rightarrow> 'ty signature list" where
  "commutative_signatures op t u =
     (if t = u then [(op, [t, t], Ty t)]
      else [(op, [t, u], Ty t), (op, [u, t], Ty t)])"

definition forward_signatures :: "operator_symbol \<Rightarrow> 'ty \<Rightarrow> 'ty \<Rightarrow> 'ty signature list" where
  "forward_signatures op t u =
     (if t = u then [(op, [t, t], Ty t)] else [(op, [t, u], Ty t)])"

definition reversed_signatures :: "operator_symbol \<Rightarrow> 'ty \<Rightarrow> 'ty \<Rightarrow> 'ty signature list" where
  "reversed_signatures op t u = [(op, [u, t], Ty t)]"

text \<open>The operators declared in the body of a specialization; a composite bundle has none.\<close>

fun signatures :: "'ty specialization \<Rightarrow> 'ty signature list" where
  "signatures (Less_than_comparable t u) =
     (if t = u then [(Op_gt, [t, t], Bool), (Op_le, [t, t], Bool), (Op_ge, [t, t], Bool)]
      else [(Op_le, [t, u], Bool), (Op_ge, [t, u], Bool), (Op_gt, [u, t], Bool),
            (Op_lt, [u, t], Bool), (Op_le, [u, t], Bool), (Op_ge, [u, t], Bool)])"
| "signatures (Equality_comparable t u) =
     (if t = u then [(Op_ne, [t, t], Bool)]
      else [(Op_eq, [u, t], Bool), (Op_ne, [u, t], Bool), (Op_ne, [t, u], Bool)])"
| "signatures (Multipliable t u) = commutative_signatures Op_mul t u"
| "signatures (Addable t u) = commutative_signatures Op_add t u"
| "signatures (Subtractable t u) = forward_signatures Op_sub t u"
| "signatures (Rsubtractable t u) = reversed_signatures Op_sub t u"
| "signatures (Dividable t u) = forward_signatures Op_div t u"
| "signatures (Rdividable t u) = reversed_signatures Op_div t u"
| "signatures (Modable t u) = forward_signatures Op_mod t u"
| "signatures (Rmodable t u) = reversed_signatures Op_mod t u"
| "signatures (Xorable t u) = commutative_signatures Op_xor t u"
| "signatures (Andable t u) = commutative_signatures Op_and t u"
| "signatures (Orable t u) = commutative_signatures Op_or t u"
| "signatures (Left_shiftable t u) = forward_signatures Op_shl t u"
| "signatures (Right_shiftable t u) = forward_signatures Op_shr t u"
| "signatures (Incrementable t) = [(Op_post_inc, [t], Ty t)]"
| "signatures (Decrementable t) = [(Op_post_dec, [t], Ty t)]"
| "signatures (Dereferenceable t p) = [(Op_arrow, [t], Ty p)]"
| "signatures (Subscriptable t i r) = [(Op_subscript, [t, i], Ty r)]"
| "signatures (Equivalent t u) =
     (if t = u then [(Op_eq, [t, t], Bool)] else [(Op_eq, [t, u], Bool)])"
| "signatures (Partially_ordered t u) =
     (if t = u then [(Op_gt, [t, t], Bool), (Op_le, [t, t], Bool), (Op_ge, [t, t], Bool)]
      else [(Op_le, [t, u], Bool), (Op_ge, [t, u], Bool), (Op_gt, [u, t], Bool),
            (Op_lt, [u, t], Bool), (Op_le, [u, t], Bool), (Op_ge, [u, t], Bool)])"
| "signatures _ = []"

text \<open>The base-specifier list of a specialization, in the order of the header.\<close>

fun bases :: "'ty specialization \<Rightarrow> 'ty specialization list" where
  "bases (Totally_ordered t u) =
     (if t = u then [Less_than_comparable t t, Equality_comparable t t]
      else [Less_than_comparable t u, Equality_comparable t u])"
| "bases (Additive t u) =
     (if t = u then [Addable t t, Subtractable t t]
      else [Addable t u, Subtractable t u])"
| "bases (Multiplicative t u) =
     (if t = u then [Multipliable t t, Dividable t t]
      else [Multipliable t u, Dividable t u])"
| "bases (Integer_multiplicative t u) =
     (if t = u then [Multiplicative t t, Modable t t]
      else [Multiplicative t u, Modable t u])"
| "bases (Arithmetic t u) =
     (if t = u then [Additive t t, Multiplicative t t]
      else [Additive t u, Multiplicative t u])"
| "bases (Integer_arithmetic t u) =
     (if t = u then [Additive t t, Integer_multiplicative t t]
      else [Additive t u, Integer_multiplicative t u])"
| "bases (Bitwise t u) =
     (if t = u then [Xorable t t, Andable t t, Orable t t]
      else [Xorable t u, Andable t u, Orable t u])"
| "bases (Unit_steppable t) = [Incrementable t, Decrementable t]"
| "bases (Shiftable t u) =
     (if t = u then [Left_shiftable t t, Right_shiftable t t]
      else [Left_shiftable t u, Right_shiftable t u])"
| "bases (Ring_operators t u) =
     (if t = u then [Additive t t, Multipliable t t]
      else [Additive t u, Rsubtractable t u, Multipliable t u])"
| "bases (Ordered_ring_operators t u) =
     (if t = u then [Ring_operators t t, Totally_ordered t t]
      else [Ring_operators t u, Totally_ordered t u])"
| "bases (Field_operators t u) =
     (if t = u then [Ring_operators t t, Dividable t t]
      else [Ring_operators t u, Dividable t u, Rdividable t u])"
| "bases (Ordered_field_operators t u) =
     (if t = u then [Field_operators t t, Totally_ordered t t]
      else [Field_operators t u, Totally_ordered t u])"
| "bases (Euclidian_ring_operators t u) =
     (if t = u then [Ring_operators t t, Dividable t t, Modable t t]
      else [Ring_operators t u, Dividable t u, Rdividable t u, Modable t u, Rmodable t u])"
| "bases (Ordered_euclidian_ring_operators t u) =
     (if t = u then [Totally_ordered t t, Euclidian_ring_operators t t]
      else [Totally_ordered t u, Euclidian_ring_operators t u])"
| "bases (Euclidean_ring_operators t u) =
     (if t = u then [Ring_operators t t, Dividable t t, Modable t t]
      else [Ring_operators t u, Dividable t u, Rdividable t u, Modable t u, Rmodable t u])"
| "bases (Ordered_euclidean_ring_operators t u) =
     (if t = u then [Totally_ordered t t, Euclidean_ring_operators t t]
      else [Totally_ordered t u, Euclidean_ring_operators t u])"
| "bases (Input_iteratable t p) =
     [Equality_comparable t t, Incrementable t, Dereferenceable t p]"
| "bases (Output_iteratable t) = [Incrementable t]"
| "bases (Forward_iteratable t p) = [Input_iteratable t p]"
| "bases (Bidirectional_iteratable t p) = [Forward_iteratable t p, Decrementable t]"
| "bases (Random_access_iteratable t p d r) =
     [Bidirectional_iteratable t p, Less_than_comparable t t, Additive t d,
      Subscriptable t d r]"
| "bases (Operators t u) =
     (if t = u then [Totally_ordered t t, Integer_arithmetic t t, Bitwise t t, Unit_steppable t]
      else [Totally_ordered t u, Integer_arithmetic t u, Bitwise t u])"
| "bases _ = []"

text \<open>
  The depth of a specialization in the inheritance graph; it bounds the recursion of
  \<open>subobjects\<close>.
\<close>

fun depth :: "'ty specialization \<Rightarrow> nat" where
  "depth (Totally_ordered t u) = 1"
| "depth (Additive t u) = 1"
| "depth (Multiplicative t u) = 1"
| "depth (Integer_multiplicative t u) = 2"
| "depth (Arithmetic t u) = 2"
| "depth (Integer_arithmetic t u) = 3"
| "depth (Bitwise t u) = 1"
| "depth (Unit_steppable t) = 1"
| "depth (Shiftable t u) = 1"
| "depth (Ring_operators t u) = 2"
| "depth (Ordered_ring_operators t u) = 3"
| "depth (Field_operators t u) = 3"
| "depth (Ordered_field_operators t u) = 4"
| "depth (Euclidian_ring_operators t u) = 3"
| "depth (Ordered_euclidian_ring_operators t u) = 4"
| "depth (Euclidean_ring_operators t u) = 3"
| "depth (Ordered_euclidean_ring_operators t u) = 4"
| "depth (Input_iteratable t p) = 1"
| "depth (Output_iteratable t) = 1"
| "depth (Forward_iteratable t p) = 2"
| "depth (Bidirectional_iteratable t p) = 3"
| "depth (Random_access_iteratable t p d r) = 4"
| "depth (Operators t u) = 4"
| "depth _ = 0"

text \<open>
  All base-class subobjects of a specialization, itself first: inheritance is not virtual,
  so a base reached along two paths is listed twice.
\<close>

function subobjects :: "'ty specialization \<Rightarrow> 'ty specialization list" where
  "subobjects c = c # concat (map subobjects (bases c))"
  by pat_completeness auto
termination
proof (relation "measure depth")
  show "wf (measure depth)" by simp
next
  fix c b :: "'ty specialization"
  assume "b \<in> set (bases c)"
  then have "depth b < depth c"
    by (cases c) (auto split: if_splits)
  then show "(b, c) \<in> measure depth" by simp
qed

declare subobjects.simps [simp del]

text \<open>
  A class that lists \<open>bs\<close> as its base classes instantiates every specialization among the
  subobjects once, however often it is reached, and each instantiation defines the friends
  and members of its body once: \<open>synthesized\<close> pairs every operator with the specialization
  that defines it.
\<close>

definition instantiations :: "'ty specialization list \<Rightarrow> 'ty specialization list" where
  "instantiations bs = remdups (concat (map subobjects bs))"

definition synthesized :: "'ty specialization list \<Rightarrow> ('ty specialization \<times> 'ty signature) list" where
  "synthesized bs =
     concat (map (\<lambda>c. map (Pair c) (signatures c)) (instantiations bs))"

section \<open>Properties of the comparison generators\<close>

lemma strict_weak_order_irrefl: "strict_weak_order lt \<Longrightarrow> \<not> lt x x"
  by (simp add: strict_weak_order_def)

lemma strict_weak_order_cotrans:
  "strict_weak_order lt \<Longrightarrow> lt x y \<Longrightarrow> lt x z \<or> lt z y"
  unfolding strict_weak_order_def by blast

text \<open>
  The formulation of the C++ standard: irreflexive, transitive, and with a transitive
  incomparability relation. It is the same notion.
\<close>

lemma strict_weak_order_iff_incomparability:
  "strict_weak_order lt \<longleftrightarrow>
     (\<forall>x. \<not> lt x x) \<and>
     (\<forall>x y z. lt x y \<longrightarrow> lt y z \<longrightarrow> lt x z) \<and>
     (\<forall>x y z. equivalent_eq lt x y \<longrightarrow> equivalent_eq lt y z \<longrightarrow> equivalent_eq lt x z)"
  (is "?L \<longleftrightarrow> ?I \<and> ?T \<and> ?E")
proof
  assume l: ?L
  have "equivalent_eq lt x z" if "equivalent_eq lt x y" "equivalent_eq lt y z" for x y z
    using that strict_weak_order_cotrans [OF l, of x z y]
      strict_weak_order_cotrans [OF l, of z x y]
    by (auto simp: equivalent_eq_def)
  with l show "?I \<and> ?T \<and> ?E"
    unfolding strict_weak_order_def by blast
next
  assume r: "?I \<and> ?T \<and> ?E"
  have "lt x z \<or> lt z y" if xy: "lt x y" for x y z
  proof (rule ccontr)
    assume n: "\<not> (lt x z \<or> lt z y)"
    from r xy have nyx: "\<not> lt y x" by blast
    from n r xy have "\<not> lt z x" and "\<not> lt y z" by blast+
    with n have "equivalent_eq lt x z" and "equivalent_eq lt z y"
      by (simp_all add: equivalent_eq_def)
    with r have "equivalent_eq lt x y" by blast
    with xy show False by (simp add: equivalent_eq_def)
  qed
  with r show ?L
    unfolding strict_weak_order_def by blast
qed


subsection \<open>C1: which primitives the ordering family reads\<close>

text \<open>
  C1, as stated: every derived operator of \<open>less_than_comparable\<close>, the heterogeneous ones
  included, is defined from the primitive \<open><\<close> alone, so that a primitive \<open>>\<close> is never
  needed. The heterogeneous \<open>T <= U\<close> is \<open>!(x > y)\<close>: it reads the primitive \<open>T > U\<close>.
  For \<open>T = int\<close>, \<open>U = nat\<close> and one and the same primitive \<open><\<close>, two composing types
  that differ only in their primitive \<open>>\<close> get different results for \<open>3 <= 2\<close>.
\<close>

theorem less_than_comparable_le_TU_reads_gt:
  "less_than_comparable_le_TU (\<lambda>x y. x < int y) (\<lambda>x y. int y < x) (3::int) (2::nat)
     \<noteq> less_than_comparable_le_TU (\<lambda>x y. x < int y) (\<lambda>x y. False) (3::int) (2::nat)"
  by (simp add: less_than_comparable_le_TU_def)

text \<open>
  C1, amended: in the specialization for \<open>U = T\<close> the three derived operators \<open>>\<close>,
  \<open><=\<close>, \<open>>=\<close> are defined from the primitive \<open><\<close> alone. In the heterogeneous
  template, \<open>T >= U\<close>, \<open>U > T\<close> and \<open>U <= T\<close> are defined from the primitive
  \<open>T < U\<close> alone (they do not change with the primitive \<open>>\<close>), while \<open>T <= U\<close>,
  \<open>U < T\<close> and \<open>U >= T\<close> are defined from the primitive \<open>T > U\<close> alone (they do not
  change with the primitive \<open><\<close>), which the composing type therefore has to supply too.
\<close>

theorem less_than_comparable_primitives:
  "less_than_comparable_gt lt1 a b = lt1 b a \<and>
   less_than_comparable_le lt1 a b = (\<not> lt1 b a) \<and>
   less_than_comparable_ge lt1 a b = (\<not> lt1 a b) \<and>
   less_than_comparable_ge_TU lt gt x y = (\<not> lt x y) \<and>
   less_than_comparable_gt_UT lt gt y x = lt x y \<and>
   less_than_comparable_le_UT lt gt y x = (\<not> lt x y) \<and>
   less_than_comparable_ge_TU lt gt = less_than_comparable_ge_TU lt gt' \<and>
   less_than_comparable_gt_UT lt gt = less_than_comparable_gt_UT lt gt' \<and>
   less_than_comparable_le_UT lt gt = less_than_comparable_le_UT lt gt' \<and>
   less_than_comparable_le_TU lt gt x y = (\<not> gt x y) \<and>
   less_than_comparable_lt_UT lt gt y x = gt x y \<and>
   less_than_comparable_ge_UT lt gt y x = (\<not> gt x y) \<and>
   less_than_comparable_le_TU lt gt = less_than_comparable_le_TU lt' gt \<and>
   less_than_comparable_lt_UT lt gt = less_than_comparable_lt_UT lt' gt \<and>
   less_than_comparable_ge_UT lt gt = less_than_comparable_ge_UT lt' gt"
  by (simp add: fun_eq_iff
      less_than_comparable_gt_def less_than_comparable_le_def less_than_comparable_ge_def
      less_than_comparable_le_TU_def less_than_comparable_ge_TU_def
      less_than_comparable_gt_UT_def less_than_comparable_lt_UT_def
      less_than_comparable_le_UT_def less_than_comparable_ge_UT_def)

subsection \<open>C2: consistency of the derived comparisons\<close>

text \<open>
  C2, as stated: for every composed ordering unit and all \<open>x\<close>, \<open>y\<close>, if \<open>x < y\<close> holds
  then \<open>y > x\<close>, \<open>x <= y\<close>, \<open>y >= x\<close> hold and \<open>x > y\<close>, \<open>x >= y\<close> do not. The unit
  puts no condition on the primitive. A type whose \<open><\<close> is not asymmetric, here \<open>\<noteq>\<close> on
  the naturals, has \<open>0 < 1\<close> and, by the derived operators of \<open>less_than_comparable<T>\<close>,
  neither \<open>0 <= 1\<close> nor \<open>1 >= 0\<close>, but \<open>0 > 1\<close>.
\<close>

theorem less_than_comparable_not_asymmetric:
  "(0::nat) \<noteq> 1 \<and>
   \<not> less_than_comparable_le (\<noteq>) (0::nat) 1 \<and>
   \<not> less_than_comparable_ge (\<noteq>) (1::nat) 0 \<and>
   less_than_comparable_gt (\<noteq>) (0::nat) 1"
  by (simp add: less_than_comparable_le_def less_than_comparable_ge_def
      less_than_comparable_gt_def)

text \<open>
  C2, amended: if \<open>x < y\<close> holds and the primitives do not contradict it at this pair, then
  \<open>y > x\<close>, \<open>x <= y\<close>, \<open>y >= x\<close> hold and \<open>x > y\<close>, \<open>x >= y\<close> do not. Not
  contradicting means: for \<open>less_than_comparable<T>\<close>, \<open>y < x\<close> does not hold (as in every
  asymmetric \<open><\<close>); for \<open>less_than_comparable<T, U>\<close> with \<open>x\<close> of type \<open>T\<close>, the
  primitive \<open>x > y\<close> does not hold; and with \<open>x\<close> of type \<open>U\<close>, where \<open>x < y\<close> is the
  derived \<open>U < T\<close>, the primitive \<open>y < x\<close> does not hold.
\<close>

theorem less_than_comparable_consistent:
  "(lt1 a b \<and> \<not> lt1 b a \<longrightarrow>
      less_than_comparable_gt lt1 b a \<and>
      less_than_comparable_le lt1 a b \<and>
      less_than_comparable_ge lt1 b a \<and>
      \<not> less_than_comparable_gt lt1 a b \<and>
      \<not> less_than_comparable_ge lt1 a b) \<and>
   (lt x y \<and> \<not> gt x y \<longrightarrow>
      less_than_comparable_gt_UT lt gt y x \<and>
      less_than_comparable_le_TU lt gt x y \<and>
      less_than_comparable_ge_UT lt gt y x \<and>
      \<not> gt x y \<and>
      \<not> less_than_comparable_ge_TU lt gt x y) \<and>
   (less_than_comparable_lt_UT lt gt y x \<and> \<not> lt x y \<longrightarrow>
      gt x y \<and>
      less_than_comparable_le_UT lt gt y x \<and>
      less_than_comparable_ge_TU lt gt x y \<and>
      \<not> less_than_comparable_gt_UT lt gt y x \<and>
      \<not> less_than_comparable_ge_UT lt gt y x)"
  by (simp add:
      less_than_comparable_gt_def less_than_comparable_le_def less_than_comparable_ge_def
      less_than_comparable_le_TU_def less_than_comparable_ge_TU_def
      less_than_comparable_gt_UT_def less_than_comparable_lt_UT_def
      less_than_comparable_le_UT_def less_than_comparable_ge_UT_def)

text \<open>
  The amended C2 at \<open>2 < 5\<close>: on the integers for the homogeneous unit, and between an
  integer and a natural number for the heterogeneous one, in both operand orders.
\<close>

theorem less_than_comparable_consistent_witness:
  "((2::int) < 5 \<and> \<not> (5::int) < 2) \<and>
   less_than_comparable_gt (<) (5::int) 2 \<and>
   less_than_comparable_le (<) (2::int) 5 \<and>
   less_than_comparable_ge (<) (5::int) 2 \<and>
   \<not> less_than_comparable_gt (<) (2::int) 5 \<and>
   \<not> less_than_comparable_ge (<) (2::int) 5 \<and>
   ((2::int) < int 5 \<and> \<not> int 5 < (2::int)) \<and>
   less_than_comparable_gt_UT (\<lambda>x y. x < int y) (\<lambda>x y. int y < x) (5::nat) (2::int) \<and>
   less_than_comparable_le_TU (\<lambda>x y. x < int y) (\<lambda>x y. int y < x) (2::int) (5::nat) \<and>
   less_than_comparable_ge_UT (\<lambda>x y. x < int y) (\<lambda>x y. int y < x) (5::nat) (2::int) \<and>
   \<not> less_than_comparable_ge_TU (\<lambda>x y. x < int y) (\<lambda>x y. int y < x) (2::int) (5::nat) \<and>
   less_than_comparable_lt_UT (\<lambda>x y. x < int y) (\<lambda>x y. int y < x) (2::nat) (5::int) \<and>
   less_than_comparable_le_UT (\<lambda>x y. x < int y) (\<lambda>x y. int y < x) (2::nat) (5::int) \<and>
   less_than_comparable_ge_TU (\<lambda>x y. x < int y) (\<lambda>x y. int y < x) (5::int) (2::nat) \<and>
   \<not> less_than_comparable_gt_UT (\<lambda>x y. x < int y) (\<lambda>x y. int y < x) (2::nat) (5::int) \<and>
   \<not> less_than_comparable_ge_UT (\<lambda>x y. x < int y) (\<lambda>x y. int y < x) (2::nat) (5::int)"
proof -
  let ?lt = "\<lambda>(x::int) (y::nat). x < int y" and ?gt = "\<lambda>(x::int) (y::nat). int y < x"
  have h1: "(2::int) < 5 \<and> \<not> (5::int) < 2" by simp
  have h2: "?lt 2 5 \<and> \<not> ?gt 2 5" by simp
  have h3: "less_than_comparable_lt_UT ?lt ?gt 2 5 \<and> \<not> ?lt 5 2"
    by (simp add: less_than_comparable_lt_UT_def)
  note forward = less_than_comparable_consistent
    [where ?lt1.0 = "(<) :: int \<Rightarrow> int \<Rightarrow> bool" and a = 2 and b = 5
       and lt = ?lt and gt = ?gt and x = 2 and y = 5]
  note reflected = less_than_comparable_consistent
    [where ?lt1.0 = "(<) :: int \<Rightarrow> int \<Rightarrow> bool" and a = 2 and b = 5
       and lt = ?lt and gt = ?gt and x = 5 and y = 2]
  from h1 h2 forward h3 reflected show ?thesis by simp
qed

subsection \<open>C10: symmetry of the derived equivalence\<close>

text \<open>
  C10: for \<open>equivalent<T>\<close> the derived \<open>x == y\<close> equals the derived \<open>y == x\<close> for every
  primitive \<open><\<close> whatsoever, since \<open>!(x < y) && !(y < x)\<close> is invariant under swapping
  the operands. Reflexivity and transitivity are not free in this way: with the reflexive
  \<open>\<le>\<close> as primitive, \<open>0 == 0\<close> does not hold, and with the primitive
  \<open>x + 1 < y\<close> on the naturals (irreflexive and transitive, but no strict weak order)
  \<open>0 == 1\<close> and \<open>1 == 2\<close> hold while \<open>0 == 2\<close> does not.
\<close>

theorem equivalent_eq_symmetric:
  "(equivalent_eq lt x y \<longleftrightarrow> equivalent_eq lt y x) \<and>
   \<not> equivalent_eq (\<le>) (0::nat) 0 \<and>
   equivalent_eq (\<lambda>a b. a + 1 < b) (0::nat) 1 \<and>
   equivalent_eq (\<lambda>a b. a + 1 < b) (1::nat) 2 \<and>
   \<not> equivalent_eq (\<lambda>a b. a + 1 < b) (0::nat) 2"
  by (auto simp: equivalent_eq_def)

subsection \<open>C4: the derived equivalence under a strict weak order\<close>

text \<open>
  C4: the equivalence generator derives \<open>==\<close> as the double-negative test, heterogeneous
  \<open>!(x < y) && !(x > y)\<close> and homogeneous \<open>!(x < y) && !(y < x)\<close>. Provided the
  primitive \<open><\<close> is a strict weak order, the derived \<open>==\<close> of \<open>equivalent<T>\<close> agrees
  with the negation test and is reflexive, symmetric and transitive.
\<close>

theorem equivalent_eq_equivalence:
  assumes "strict_weak_order lt"
  shows "(equivalent_eq lt x y \<longleftrightarrow> \<not> lt x y \<and> \<not> lt y x) \<and>
     equivalent_eq lt x x \<and>
     (equivalent_eq lt x y \<longleftrightarrow> equivalent_eq lt y x) \<and>
     (equivalent_eq lt x y \<and> equivalent_eq lt y z \<longrightarrow> equivalent_eq lt x z) \<and>
     (equivalent_eq_TU lt2 gt2 u v \<longleftrightarrow> \<not> lt2 u v \<and> \<not> gt2 u v)"
proof -
  have test: "equivalent_eq lt x y \<longleftrightarrow> \<not> lt x y \<and> \<not> lt y x"
    by (simp add: equivalent_eq_def)
  have refl: "equivalent_eq lt x x"
    using strict_weak_order_irrefl [OF assms, of x] by (simp add: equivalent_eq_def)
  have sym: "equivalent_eq lt x y \<longleftrightarrow> equivalent_eq lt y x"
    by (auto simp: equivalent_eq_def)
  have trans: "equivalent_eq lt x z" if "equivalent_eq lt x y" and "equivalent_eq lt y z"
    using that strict_weak_order_cotrans [OF assms, of x z y]
      strict_weak_order_cotrans [OF assms, of z x y]
    by (auto simp: equivalent_eq_def)
  have hetero: "equivalent_eq_TU lt2 gt2 u v \<longleftrightarrow> \<not> lt2 u v \<and> \<not> gt2 u v"
    by (simp add: equivalent_eq_TU_def)
  from test refl sym trans hetero show ?thesis by blast
qed

text \<open>
  C4 on pairs of naturals ordered by their first component, a strict weak order whose
  equivalence is coarser than equality.
\<close>

theorem equivalent_eq_equivalence_witness:
  "strict_weak_order (\<lambda>(a::nat \<times> nat) b. fst a < fst b) \<and>
   equivalent_eq (\<lambda>a b. fst a < fst b) (1::nat, 2::nat) (1, 2) \<and>
   equivalent_eq (\<lambda>a b. fst a < fst b) (1::nat, 2::nat) (1, 3) \<and>
   equivalent_eq (\<lambda>a b. fst a < fst b) (1::nat, 3::nat) (1, 2) \<and>
   equivalent_eq (\<lambda>a b. fst a < fst b) (1::nat, 3::nat) (1, 4) \<and>
   equivalent_eq (\<lambda>a b. fst a < fst b) (1::nat, 2::nat) (1, 4) \<and>
   \<not> equivalent_eq (\<lambda>a b. fst a < fst b) (1::nat, 2::nat) (2, 2)"
proof -
  let ?lt = "\<lambda>(a::nat \<times> nat) (b::nat \<times> nat). fst a < fst b"
  have swo: "strict_weak_order ?lt"
    by (auto simp: strict_weak_order_def)
  have e12: "equivalent_eq ?lt (1, 2) (1, 3)" and e23: "equivalent_eq ?lt (1, 3) (1, 4)"
    and n: "\<not> equivalent_eq ?lt (1, 2) (2, 2)"
    by (simp_all add: equivalent_eq_def)
  note at = equivalent_eq_equivalence
    [OF swo, where x = "(1, 2)" and y = "(1, 3)" and z = "(1, 4)"
       and ?lt2.0 = "(<) :: nat \<Rightarrow> nat \<Rightarrow> bool" and ?gt2.0 = "(>) :: nat \<Rightarrow> nat \<Rightarrow> bool"
       and u = 0 and v = 0]
  from swo e12 e23 n at show ?thesis by blast
qed

section \<open>Properties of the binary-operator generators\<close>

subsection \<open>C3: the commutative shape\<close>

text \<open>
  C3: each commutative generator (\<open>multipliable\<close>, \<open>addable\<close>, \<open>xorable\<close>,
  \<open>andable\<close>, \<open>orable\<close>) produces for heterogeneous operands \<open>T operator op(T x, U y)\<close>,
  the left operand copied and \<open>op=\<close> applied with the right one, and
  \<open>T operator op(U y, T x)\<close>, the right operand copied and \<open>op=\<close> applied with the left
  one; both return the self type \<open>T\<close>. The specialization for \<open>U = T\<close> declares the single
  forward form only.
\<close>

theorem commutative_generators:
  "multipliable_TU mul_assign (x::'t) (y::'u) = (mul_assign x y :: 't) \<and>
   multipliable_UT mul_assign y x = mul_assign x y \<and>
   addable_TU add_assign (x::'t) (y::'u) = (add_assign x y :: 't) \<and>
   addable_UT add_assign y x = add_assign x y \<and>
   xorable_TU xor_assign (x::'t) (y::'u) = (xor_assign x y :: 't) \<and>
   xorable_UT xor_assign y x = xor_assign x y \<and>
   andable_TU and_assign (x::'t) (y::'u) = (and_assign x y :: 't) \<and>
   andable_UT and_assign y x = and_assign x y \<and>
   orable_TU or_assign (x::'t) (y::'u) = (or_assign x y :: 't) \<and>
   orable_UT or_assign y x = or_assign x y \<and>
   multipliable mul_assign1 a b = mul_assign1 a b \<and>
   addable add_assign1 a b = add_assign1 a b \<and>
   xorable xor_assign1 a b = xor_assign1 a b \<and>
   andable and_assign1 a b = and_assign1 a b \<and>
   orable or_assign1 a b = or_assign1 a b \<and>
   signatures (Multipliable t u) =
     (if t = u then [(Op_mul, [t, t], Ty t)]
      else [(Op_mul, [t, u], Ty t), (Op_mul, [u, t], Ty t)]) \<and>
   signatures (Addable t u) =
     (if t = u then [(Op_add, [t, t], Ty t)]
      else [(Op_add, [t, u], Ty t), (Op_add, [u, t], Ty t)]) \<and>
   signatures (Xorable t u) =
     (if t = u then [(Op_xor, [t, t], Ty t)]
      else [(Op_xor, [t, u], Ty t), (Op_xor, [u, t], Ty t)]) \<and>
   signatures (Andable t u) =
     (if t = u then [(Op_and, [t, t], Ty t)]
      else [(Op_and, [t, u], Ty t), (Op_and, [u, t], Ty t)]) \<and>
   signatures (Orable t u) =
     (if t = u then [(Op_or, [t, t], Ty t)]
      else [(Op_or, [t, u], Ty t), (Op_or, [u, t], Ty t)])"
  by (simp add: multipliable_TU_def multipliable_UT_def addable_TU_def addable_UT_def
      xorable_TU_def xorable_UT_def andable_TU_def andable_UT_def orable_TU_def orable_UT_def
      multipliable_def addable_def xorable_def andable_def orable_def
      PYCPP_BINARY_OPERATOR_COMMUTATIVE_TU_def PYCPP_BINARY_OPERATOR_COMMUTATIVE_UT_def
      PYCPP_BINARY_OPERATOR_COMMUTATIVE_TT_def commutative_signatures_def)

subsection \<open>C5: round trips of the homogeneous arithmetic operators\<close>

lemma int_mult_sdiv_cancel: "b \<noteq> 0 \<Longrightarrow> (a * b) sdiv b = (a::int)"
  apply (simp add: signed_divide_int_def sgn_mult abs_mult)
  apply (cases "a = 0"; cases "0 < a"; cases "0 < b"; simp add: sgn_if)
  done

text \<open>
  C5: for a homogeneous additive composition over a type whose compound assignments satisfy
  the identity, the derived binary operators satisfy \<open>(a + b) - b == a\<close> for all
  \<open>a\<close>, \<open>b\<close>; for a homogeneous multiplicative composition, \<open>(a * b) / b == a\<close> for all
  \<open>a\<close> and all non-zero \<open>b\<close>.
\<close>

theorem arithmetic_round_trip:
  "((\<forall>a b. sub_assign (add_assign a b) b = a) \<longrightarrow>
      subtractable sub_assign (addable add_assign x y) y = x) \<and>
   ((\<forall>a b. b \<noteq> zero \<longrightarrow> div_assign (mul_assign a b) b = a) \<and> w \<noteq> zero \<longrightarrow>
      dividable div_assign (multipliable mul_assign v w) w = v)"
  by (simp add: subtractable_def addable_def dividable_def multipliable_def
      PYCPP_BINARY_OPERATOR_COMMUTATIVE_TT_def PYCPP_BINARY_OPERATOR_NON_COMMUTATIVE_TT_def)

text \<open>
  C5 on the exact integers, with \<open>+=\<close>, \<open>-=\<close>, \<open>*=\<close> the integer operations and
  \<open>/=\<close> the division of C++, which truncates towards zero.
\<close>

theorem arithmetic_round_trip_witness:
  "subtractable (-) (addable (+) (-7::int) 2) 2 = -7 \<and>
   (2::int) \<noteq> 0 \<and>
   dividable (sdiv) (multipliable (*) (-7::int) 2) 2 = -7"
proof -
  have add: "\<forall>a b::int. (a + b) - b = a" by simp
  have mul: "\<forall>a b::int. b \<noteq> 0 \<longrightarrow> (a * b) sdiv b = a"
    by (simp add: int_mult_sdiv_cancel)
  have nz: "(2::int) \<noteq> 0" by simp
  note at = arithmetic_round_trip
    [where sub_assign = "(-) :: int \<Rightarrow> int \<Rightarrow> int" and add_assign = "(+)"
       and x = "- 7" and y = 2 and zero = 0 and div_assign = "(sdiv)"
       and mul_assign = "(*)" and v = "- 7" and w = 2]
  from at have "(\<forall>a b::int. (a + b) - b = a) \<longrightarrow>
      subtractable (-) (addable (+) (- 7::int) 2) 2 = - 7"
    by (rule conjunct1)
  from this add have c1: "subtractable (-) (addable (+) (- 7::int) 2) 2 = - 7"
    by (rule mp)
  from mul nz have h2: "(\<forall>a b::int. b \<noteq> 0 \<longrightarrow> (a * b) sdiv b = a) \<and> (2::int) \<noteq> 0"
    by (rule conjI)
  from at have "(\<forall>a b::int. b \<noteq> 0 \<longrightarrow> (a * b) sdiv b = a) \<and> (2::int) \<noteq> 0 \<longrightarrow>
      dividable (sdiv) (multipliable (*) (- 7::int) 2) 2 = - 7"
    by (rule conjunct2)
  from this h2 have c2: "dividable (sdiv) (multipliable (*) (- 7::int) 2) 2 = - 7"
    by (rule mp)
  from c1 nz c2 show ?thesis by (intro conjI)
qed

section \<open>The subobjects of the iterator bundles\<close>

lemma subobjects_Random_access_iteratable:
  "subobjects (Random_access_iteratable t p d r) =
     [Random_access_iteratable t p d r, Bidirectional_iteratable t p, Forward_iteratable t p,
      Input_iteratable t p, Equality_comparable t t, Incrementable t, Dereferenceable t p,
      Decrementable t, Less_than_comparable t t, Additive t d, Addable t d, Subtractable t d,
      Subscriptable t d r]"
  by (simp add: subobjects.simps)

section \<open>Properties of the step and accessor generators\<close>

subsection \<open>C6: postfix steps\<close>

text \<open>
  C6: \<open>tmp = x++\<close> leaves \<open>tmp\<close> equal to the value of \<open>x\<close> before the call and
  \<open>x\<close> equal to one prefix increment of that value, and symmetrically for \<open>x--\<close>. The
  prefix operation runs exactly once per call: for a type that counts the calls of its
  prefix operator beside its value, the count after the call is one more than before.
\<close>

theorem postfix_step:
  "incrementable_post_inc pre_inc x = (x, pre_inc x) \<and>
   decrementable_post_dec pre_dec x = (x, pre_dec x) \<and>
   incrementable_post_inc (\<lambda>(v, calls). (f v, Suc calls)) (a, n) = ((a, n), (f a, Suc n)) \<and>
   decrementable_post_dec (\<lambda>(v, calls). (g v, Suc calls)) (a, n) = ((a, n), (g a, Suc n))"
  by (simp add: incrementable_post_inc_def decrementable_post_dec_def)

subsection \<open>C7: indexed access\<close>

text \<open>
  C7: for a type composing \<open>subscriptable\<close>, \<open>self[n] == *(self + n)\<close> for every index
  \<open>n\<close>, where \<open>+\<close> is the addition of the type with the distance type. Inside
  \<open>random_access_iteratable\<close> that addition is the one \<open>addable<T, D>\<close> derives from
  \<open>+=\<close>, so that \<open>self[n]\<close> is the dereferenced copy of \<open>self\<close> advanced by \<open>n\<close>.
\<close>

theorem subscriptable_index_is_deref_add:
  "subscriptable_index add deref self n = deref (add self n) \<and>
   subscriptable_index (addable_TU add_assign) deref' self' n' = deref' (add_assign self' n') \<and>
   Subscriptable t d r \<in> set (bases (Random_access_iteratable t p d r)) \<and>
   Addable t d \<in> set (subobjects (Random_access_iteratable t p d r))"
  by (simp add: subscriptable_index_def addable_TU_def
      PYCPP_BINARY_OPERATOR_COMMUTATIVE_TU_def subobjects_Random_access_iteratable)

section \<open>Properties of the composite bundles\<close>

lemma subobjects_Totally_ordered:
  "subobjects (Totally_ordered t u) =
     [Totally_ordered t u, Less_than_comparable t u, Equality_comparable t u]"
  by (simp add: subobjects.simps)

lemma subobjects_Bidirectional_iteratable:
  "subobjects (Bidirectional_iteratable t p) =
     [Bidirectional_iteratable t p, Forward_iteratable t p, Input_iteratable t p,
      Equality_comparable t t, Incrementable t, Dereferenceable t p, Decrementable t]"
  by (simp add: subobjects.simps)

lemma subobjects_Ring_operators:
  "subobjects (Ring_operators t u) =
     (if t = u
      then [Ring_operators t t, Additive t t, Addable t t, Subtractable t t, Multipliable t t]
      else [Ring_operators t u, Additive t u, Addable t u, Subtractable t u,
            Rsubtractable t u, Multipliable t u])"
  by (simp add: subobjects.simps)

lemma distinct_instantiations: "distinct (instantiations bs)"
  by (simp add: instantiations_def)

lemma signatures_Random_access_iteratable:
  "map snd (synthesized [Random_access_iteratable t p d r]) =
     [(Op_ne, [t, t], Bool), (Op_post_inc, [t], Ty t), (Op_arrow, [t], Ty p),
      (Op_post_dec, [t], Ty t), (Op_gt, [t, t], Bool), (Op_le, [t, t], Bool),
      (Op_ge, [t, t], Bool)] @ commutative_signatures Op_add t d @
      forward_signatures Op_sub t d @ [(Op_subscript, [t, d], Ty r)]"
  by (simp add: synthesized_def instantiations_def subobjects_Random_access_iteratable
      comp_def)

lemma signatures_Totally_ordered_Bidirectional_iteratable:
  "map snd (synthesized [Totally_ordered t t, Bidirectional_iteratable t p]) =
     [(Op_gt, [t, t], Bool), (Op_le, [t, t], Bool), (Op_ge, [t, t], Bool),
      (Op_ne, [t, t], Bool), (Op_post_inc, [t], Ty t), (Op_arrow, [t], Ty p),
      (Op_post_dec, [t], Ty t)]"
  by (simp add: synthesized_def instantiations_def subobjects_Totally_ordered
      subobjects_Bidirectional_iteratable)

subsection \<open>C8: one copy of the equality family\<close>

text \<open>
  C8: composing two bundles that both depend on equality comparability yields the operators
  of the equality family once, one instantiation per unique specialization, and no operator
  is defined twice. A class deriving from both \<open>totally_ordered<T>\<close> and
  \<open>bidirectional_iteratable<T, P>\<close> reaches \<open>equality_comparable<T>\<close> along two paths,
  instantiates it once and gets every operator it declares exactly once. In
  \<open>random_access_iteratable\<close> the specialization \<open>equality_comparable<T>\<close> is even a
  base along one path only: the bundle derives from \<open>less_than_comparable<T>\<close> and from
  no \<open>totally_ordered\<close>.
\<close>

theorem equality_comparable_once:
  "count_list (concat (map subobjects [Totally_ordered t t, Bidirectional_iteratable t p]))
     (Equality_comparable t t) = 2 \<and>
   count_list (instantiations [Totally_ordered t t, Bidirectional_iteratable t p])
     (Equality_comparable t t) = 1 \<and>
   distinct (instantiations bs) \<and>
   signatures (Equality_comparable t t) = [(Op_ne, [t, t], Bool)] \<and>
   count_list (map snd (synthesized [Totally_ordered t t, Bidirectional_iteratable t p]))
     (Op_ne, [t, t], Bool) = 1 \<and>
   distinct (map snd (synthesized [Totally_ordered t t, Bidirectional_iteratable t p])) \<and>
   count_list (subobjects (Random_access_iteratable t p d r)) (Equality_comparable t t) = 1 \<and>
   Less_than_comparable t t \<in> set (bases (Random_access_iteratable t p d r)) \<and>
   Totally_ordered t u \<notin> set (subobjects (Random_access_iteratable t p d r)) \<and>
   count_list (map snd (synthesized [Random_access_iteratable t p d r]))
     (Op_ne, [t, t], Bool) = 1 \<and>
   distinct (map snd (synthesized [Random_access_iteratable t p d r]))"
proof -
  have two: "count_list (concat (map subobjects
      [Totally_ordered t t, Bidirectional_iteratable t p])) (Equality_comparable t t) = 2"
    by (simp add: subobjects_Totally_ordered subobjects_Bidirectional_iteratable)
  have one: "count_list (instantiations [Totally_ordered t t, Bidirectional_iteratable t p])
      (Equality_comparable t t) = 1"
    by (simp add: instantiations_def subobjects_Totally_ordered
        subobjects_Bidirectional_iteratable)
  have ne: "signatures (Equality_comparable t t) = [(Op_ne, [t, t], Bool)]"
    by simp
  have both: "count_list (map snd (synthesized
        [Totally_ordered t t, Bidirectional_iteratable t p])) (Op_ne, [t, t], Bool) = 1"
      "distinct (map snd (synthesized [Totally_ordered t t, Bidirectional_iteratable t p]))"
    by (simp_all add: signatures_Totally_ordered_Bidirectional_iteratable)
  have path: "count_list (subobjects (Random_access_iteratable t p d r))
      (Equality_comparable t t) = 1"
    by (simp add: subobjects_Random_access_iteratable)
  have less: "Less_than_comparable t t \<in> set (bases (Random_access_iteratable t p d r))"
    by simp
  have total: "Totally_ordered t u \<notin> set (subobjects (Random_access_iteratable t p d r))"
    by (simp add: subobjects_Random_access_iteratable)
  have random: "count_list (map snd (synthesized [Random_access_iteratable t p d r]))
        (Op_ne, [t, t], Bool) = 1"
      "distinct (map snd (synthesized [Random_access_iteratable t p d r]))"
    by (simp_all add: signatures_Random_access_iteratable commutative_signatures_def
        forward_signatures_def)
  from two one distinct_instantiations [of bs] ne both path less total random
  show ?thesis by (intro conjI)
qed

subsection \<open>C9: the two spellings of the Euclidean ring bundle\<close>

text \<open>
  C9: \<open>euclidian_ring_operators\<close> and \<open>euclidean_ring_operators\<close> have the same
  composition. For all \<open>T\<close> and \<open>U\<close>, equal or not, the two bundles have the same list of
  base classes and declare no operator of their own, so that a class deriving from either
  gets the same operators, each defined by the same specialization of the same unit.
\<close>

theorem euclidian_euclidean_same_composition:
  "bases (Euclidian_ring_operators t u) = bases (Euclidean_ring_operators t u) \<and>
   signatures (Euclidian_ring_operators t u) = [] \<and>
   signatures (Euclidean_ring_operators t u) = [] \<and>
   tl (subobjects (Euclidian_ring_operators t u)) =
     tl (subobjects (Euclidean_ring_operators t u)) \<and>
   synthesized [Euclidian_ring_operators t u] = synthesized [Euclidean_ring_operators t u]"
proof -
  have b: "bases (Euclidian_ring_operators t u) = bases (Euclidean_ring_operators t u)"
    by simp
  have s: "signatures (Euclidian_ring_operators t u) = []"
    "signatures (Euclidean_ring_operators t u) = []"
    by simp_all
  have l: "subobjects (Euclidian_ring_operators t u) =
      Euclidian_ring_operators t u # concat (map subobjects (bases (Euclidean_ring_operators t u)))"
    "subobjects (Euclidean_ring_operators t u) =
      Euclidean_ring_operators t u # concat (map subobjects (bases (Euclidean_ring_operators t u)))"
    for t u :: 'a
    by (simp_all add: subobjects.simps [of "Euclidian_ring_operators t u"]
        subobjects.simps [of "Euclidean_ring_operators t u"])
  have t: "tl (subobjects (Euclidian_ring_operators t u)) =
      tl (subobjects (Euclidean_ring_operators t u))"
    by (simp add: l)
  have leaf: "subobjects (Dividable t u) = [Dividable t u]"
    "subobjects (Rdividable t u) = [Rdividable t u]"
    "subobjects (Modable t u) = [Modable t u]"
    "subobjects (Rmodable t u) = [Rmodable t u]" for t u :: 'a
    by (simp_all add: subobjects.simps)
  have y: "synthesized [Euclidian_ring_operators t u] =
      synthesized [Euclidean_ring_operators t u]"
    by (cases "t = u")
      (simp_all add: synthesized_def instantiations_def l leaf subobjects_Ring_operators)
  from b s t y show ?thesis by (intro conjI)
qed

end
